theory Spec2Isabelle
  imports Complex_Main
begin

section \<open>JavaScript numbers\<close>

text \<open>
  Every quantity of \<^verbatim>\<open>App.tsx\<close> is a JavaScript \<^verbatim>\<open>number\<close>. A finite number is
  modelled by the rational it denotes and the three special values are kept apart, since
  \<^verbatim>\<open>Number(e.target.value)\<close> can produce them and \<^verbatim>\<open>onSetContribution\<close> tests for them.
  Arithmetic on finite numbers is exact: the rounding of IEEE doubles is not modelled, the
  rate \<^verbatim>\<open>0.2\<close> is the rational one fifth, and \<^verbatim>\<open>-0\<close> is \<^verbatim>\<open>0\<close>.
\<close>

datatype number = Fin rat | PosInf | NegInf | NaN

text \<open>\<^verbatim>\<open>Number.isFinite\<close>\<close>

fun isFinite :: "number \<Rightarrow> bool" where
  "isFinite (Fin x) = True"
| "isFinite PosInf = False"
| "isFinite NegInf = False"
| "isFinite NaN = False"

text \<open>Unary minus.\<close>

fun num_neg :: "number \<Rightarrow> number" where
  "num_neg (Fin x) = Fin (- x)"
| "num_neg PosInf = NegInf"
| "num_neg NegInf = PosInf"
| "num_neg NaN = NaN"

text \<open>\<^verbatim>\<open>a + b\<close>: the sum of opposite infinities is \<^verbatim>\<open>NaN\<close>.\<close>

fun num_add :: "number \<Rightarrow> number \<Rightarrow> number" where
  "num_add NaN b = NaN"
| "num_add a NaN = NaN"
| "num_add (Fin x) (Fin y) = Fin (x + y)"
| "num_add PosInf NegInf = NaN"
| "num_add NegInf PosInf = NaN"
| "num_add PosInf b = PosInf"
| "num_add NegInf b = NegInf"
| "num_add a PosInf = PosInf"
| "num_add a NegInf = NegInf"

text \<open>\<^verbatim>\<open>a - b\<close>\<close>

definition num_sub :: "number \<Rightarrow> number \<Rightarrow> number" where
  "num_sub a b = num_add a (num_neg b)"

text \<open>\<^verbatim>\<open>a * b\<close>: zero times an infinity is \<^verbatim>\<open>NaN\<close>, otherwise the signs multiply.\<close>

fun num_mul :: "number \<Rightarrow> number \<Rightarrow> number" where
  "num_mul NaN b = NaN"
| "num_mul a NaN = NaN"
| "num_mul (Fin x) (Fin y) = Fin (x * y)"
| "num_mul (Fin x) PosInf = (if x = 0 then NaN else if 0 < x then PosInf else NegInf)"
| "num_mul (Fin x) NegInf = (if x = 0 then NaN else if 0 < x then NegInf else PosInf)"
| "num_mul PosInf (Fin y) = (if y = 0 then NaN else if 0 < y then PosInf else NegInf)"
| "num_mul NegInf (Fin y) = (if y = 0 then NaN else if 0 < y then NegInf else PosInf)"
| "num_mul PosInf PosInf = PosInf"
| "num_mul PosInf NegInf = NegInf"
| "num_mul NegInf PosInf = NegInf"
| "num_mul NegInf NegInf = PosInf"

text \<open>The comparisons \<^verbatim>\<open><\<close>, \<^verbatim>\<open>>\<close>, \<^verbatim>\<open><=\<close> and \<^verbatim>\<open>>=\<close>: false as soon as one side is \<^verbatim>\<open>NaN\<close>.\<close>

fun num_lt :: "number \<Rightarrow> number \<Rightarrow> bool" where
  "num_lt NaN b = False"
| "num_lt a NaN = False"
| "num_lt (Fin x) (Fin y) = (x < y)"
| "num_lt NegInf NegInf = False"
| "num_lt NegInf b = True"
| "num_lt a NegInf = False"
| "num_lt PosInf b = False"
| "num_lt a PosInf = True"

definition num_gt :: "number \<Rightarrow> number \<Rightarrow> bool" where
  "num_gt a b = num_lt b a"

definition num_le :: "number \<Rightarrow> number \<Rightarrow> bool" where
  "num_le a b = (a \<noteq> NaN \<and> b \<noteq> NaN \<and> \<not> num_lt b a)"

definition num_ge :: "number \<Rightarrow> number \<Rightarrow> bool" where
  "num_ge a b = num_le b a"

text \<open>\<^verbatim>\<open>Math.min\<close>, \<^verbatim>\<open>Math.max\<close> and \<^verbatim>\<open>Math.abs\<close>; a \<^verbatim>\<open>NaN\<close> argument gives \<^verbatim>\<open>NaN\<close>.\<close>

definition Math_min :: "number \<Rightarrow> number \<Rightarrow> number" where
  "Math_min a b = (if a = NaN \<or> b = NaN then NaN else if num_lt b a then b else a)"

definition Math_max :: "number \<Rightarrow> number \<Rightarrow> number" where
  "Math_max a b = (if a = NaN \<or> b = NaN then NaN else if num_lt a b then b else a)"

fun Math_abs :: "number \<Rightarrow> number" where
  "Math_abs (Fin x) = Fin \<bar>x\<bar>"
| "Math_abs PosInf = PosInf"
| "Math_abs NegInf = PosInf"
| "Math_abs NaN = NaN"

section \<open>Data\<close>

text \<open>
  \<^verbatim>\<open>Coverage\<close> is the key type of \<^verbatim>\<open>planData.traditional.costs\<close>: the four strings
  \<^verbatim>\<open>"employee"\<close>, \<^verbatim>\<open>"spouse"\<close>, \<^verbatim>\<open>"children"\<close>, \<^verbatim>\<open>"family"\<close>.
\<close>

datatype coverage = Employee | Spouse | Children | Family

datatype displayMode = Monthly | Pay

record premium =
  monthly :: number
  pay :: number

record person_family =
  person :: number
  family :: number

record employeeOnly_twoPlus =
  employeeOnly :: number
  twoPlus :: number

text \<open>
  A plan's \<^verbatim>\<open>details.deductible\<close> has one of two shapes; the source tells them apart by
  \<^verbatim>\<open>d.employeeOnly !== undefined\<close>.
\<close>

datatype deductible = PersonFamily person_family | EmployeeOnlyTwoPlus employeeOnly_twoPlus

record details =
  deductible :: deductible
  oopMax :: person_family
  pharmacy :: string

text \<open>
  \<^verbatim>\<open>costs\<close> is read as \<^verbatim>\<open>plan.costs[coverage].monthly\<close> with no guard, so it is a total
  table; \<^verbatim>\<open>hsaMatch\<close> is read under \<^verbatim>\<open>?? 0\<close> and \<^verbatim>\<open>|| 0\<close>, so it is a map whose missing entry is
  \<^verbatim>\<open>undefined\<close>.
\<close>

record plan =
  name :: string
  costs :: "coverage \<Rightarrow> premium"
  hsaMatch :: "coverage \<rightharpoonup> number"
  details :: details

definition byCoverage :: "'a \<Rightarrow> 'a \<Rightarrow> 'a \<Rightarrow> 'a \<Rightarrow> coverage \<Rightarrow> 'a" where
  "byCoverage e s c f k = (case k of Employee \<Rightarrow> e | Spouse \<Rightarrow> s | Children \<Rightarrow> c | Family \<Rightarrow> f)"

definition joinLines :: "string list \<Rightarrow> string" where
  "joinLines ls = concat (case ls of [] \<Rightarrow> [] | l # rest \<Rightarrow> l # map (\<lambda>r. CHR 0x0A # r) rest)"

definition traditional :: plan where
  "traditional =
    \<lparr> name = ''SelectHealth Traditional'',
      costs = byCoverage
        \<lparr> monthly = Fin 176, pay = Fin 81.23 \<rparr>
        \<lparr> monthly = Fin 401, pay = Fin 185.08 \<rparr>
        \<lparr> monthly = Fin 330, pay = Fin 152.31 \<rparr>
        \<lparr> monthly = Fin 599, pay = Fin 276.46 \<rparr>,
      hsaMatch = [Employee \<mapsto> Fin 0, Spouse \<mapsto> Fin 0, Children \<mapsto> Fin 0, Family \<mapsto> Fin 0],
      details =
        \<lparr> deductible = PersonFamily \<lparr> person = Fin 750, family = Fin 2250 \<rparr>,
          oopMax = \<lparr> person = Fin 3500, family = Fin 7000 \<rparr>,
          pharmacy = joinLines
            [''Tier 1: $15'', ''Tier 2: $30'', ''Tier 3: $60'', ''Tier 4: 30%'',
             ''No deductible needs to be met for this benefit''] \<rparr> \<rparr>"

definition hdhpA :: plan where
  "hdhpA =
    \<lparr> name = ''SelectHealth HDHP Plan A'',
      costs = byCoverage
        \<lparr> monthly = Fin 88, pay = Fin 40.62 \<rparr>
        \<lparr> monthly = Fin 198, pay = Fin 91.38 \<rparr>
        \<lparr> monthly = Fin 148, pay = Fin 68.31 \<rparr>
        \<lparr> monthly = Fin 297, pay = Fin 137.08 \<rparr>,
      hsaMatch = [Employee \<mapsto> Fin 600, Spouse \<mapsto> Fin 1200, Children \<mapsto> Fin 1200, Family \<mapsto> Fin 1200],
      details =
        \<lparr> deductible = EmployeeOnlyTwoPlus \<lparr> employeeOnly = Fin 1700, twoPlus = Fin 3400 \<rparr>,
          oopMax = \<lparr> person = Fin 3500, family = Fin 7000 \<rparr>,
          pharmacy = joinLines
            [''Tier 1: $10 AD'', ''Tier 2: $25 AD'', ''Tier 3: $45 AD'', ''Tier 4: 30% AD'',
             ''The deductible must be met first!''] \<rparr> \<rparr>"

definition hdhpB :: plan where
  "hdhpB =
    \<lparr> name = ''SelectHealth HDHP Plan B'',
      costs = byCoverage
        \<lparr> monthly = Fin 25, pay = Fin 11.54 \<rparr>
        \<lparr> monthly = Fin 55, pay = Fin 25.38 \<rparr>
        \<lparr> monthly = Fin 52, pay = Fin 23.85 \<rparr>
        \<lparr> monthly = Fin 82, pay = Fin 37.85 \<rparr>,
      hsaMatch = [Employee \<mapsto> Fin 600, Spouse \<mapsto> Fin 1200, Children \<mapsto> Fin 1200, Family \<mapsto> Fin 1200],
      details =
        \<lparr> deductible = EmployeeOnlyTwoPlus \<lparr> employeeOnly = Fin 5000, twoPlus = Fin 10000 \<rparr>,
          oopMax = \<lparr> person = Fin 6000, family = Fin 12000 \<rparr>,
          pharmacy = joinLines
            [''Tier 1: $10 AD'', ''Tier 2: $25 AD'', ''Tier 3: $45 AD'', ''Tier 4: 30% AD'',
             ''The deductible must be met first!''] \<rparr> \<rparr>"

definition PLAN_ORDER :: "plan list" where
  "PLAN_ORDER = [traditional, hdhpA, hdhpB]"

section \<open>Helpers\<close>

definition coverageMaxHSA :: "coverage \<Rightarrow> number" where
  "coverageMaxHSA coverage = (if coverage = Employee then Fin 4400 else Fin 8750)"

definition premiumFor :: "plan \<Rightarrow> coverage \<Rightarrow> displayMode \<Rightarrow> number" where
  "premiumFor p coverage mode =
     (if mode = Monthly then monthly (costs p coverage) else pay (costs p coverage))"

text \<open>\<^verbatim>\<open>plan.hsaMatch[coverage] ?? 0\<close>\<close>

definition employerMatchFor :: "plan \<Rightarrow> coverage \<Rightarrow> number" where
  "employerMatchFor p coverage = (case hsaMatch p coverage of None \<Rightarrow> Fin 0 | Some m \<Rightarrow> m)"

definition thresholdsFor :: "plan \<Rightarrow> coverage \<Rightarrow> number \<times> number" where
  "thresholdsFor p coverage =
     (let d = deductible (details p);
          o' = oopMax (details p);
          deductible =
            (case d of
               EmployeeOnlyTwoPlus e \<Rightarrow> (if coverage = Employee then employeeOnly e else twoPlus e)
             | PersonFamily q \<Rightarrow> (if coverage = Employee then person q else family q));
          oopMax = (if coverage = Employee then person o' else family o')
      in (deductible, oopMax))"

definition totalContributionIncludingMatch :: "number \<Rightarrow> number \<Rightarrow> number" where
  "totalContributionIncludingMatch matchCap employee =
     (if num_le matchCap (Fin 0) then employee
      else if num_ge employee matchCap then num_add employee matchCap
      else num_mul employee (Fin 2))"

section \<open>The component\<close>

text \<open>
  \<^verbatim>\<open>x || 0\<close> on a looked-up match: \<^verbatim>\<open>undefined\<close>, \<^verbatim>\<open>0\<close> and \<^verbatim>\<open>NaN\<close> are falsy.
\<close>

definition orZero :: "number option \<Rightarrow> number" where
  "orZero x = (case x of None \<Rightarrow> Fin 0 | Some m \<Rightarrow> (if m = Fin 0 \<or> m = NaN then Fin 0 else m))"

definition maxMatchForCoverage :: "coverage \<Rightarrow> number" where
  "maxMatchForCoverage coverage =
     Math_max (orZero (hsaMatch hdhpA coverage)) (orZero (hsaMatch hdhpB coverage))"

text \<open>The number that \<^verbatim>\<open>totalInclMatchDisplay\<close> formats as currency.\<close>

definition totalInclMatch :: "coverage \<Rightarrow> number \<Rightarrow> number" where
  "totalInclMatch coverage dEmployeeContribution =
     totalContributionIncludingMatch (maxMatchForCoverage coverage) dEmployeeContribution"

text \<open>One element of \<^verbatim>\<open>calcResults\<close>.\<close>

record result =
  plan :: plan
  annualEmployeePremiumCost :: number
  hsaBenefit :: number
  preDeductibleCost :: number
  postDeductibleCost :: number
  totalSpending :: number

text \<open>The body of the \<^verbatim>\<open>PLAN_ORDER.map\<close> callback of \<^verbatim>\<open>calcResults\<close>, for one plan.\<close>

definition calcResult :: "coverage \<Rightarrow> number \<Rightarrow> number \<Rightarrow> plan \<Rightarrow> result" where
  "calcResult coverage dEmployeeContribution dExpectedSpend p =
     (let coinsuranceRate = Fin 0.2;
          (deductible, oopMax) = thresholdsFor p coverage;
          annualEmployeePremiumCost = num_neg (num_mul (monthly (costs p coverage)) (Fin 12));
          match = employerMatchFor p coverage;
          hsaBenefit = Math_min dEmployeeContribution match;
          preDeductibleCost = num_neg (Math_min dExpectedSpend deductible);
          postRaw =
            (if num_gt dExpectedSpend deductible then
               (let coinsurancePortion = num_mul (num_sub dExpectedSpend deductible) coinsuranceRate;
                    capPortion = Math_max (num_sub oopMax deductible) (Fin 0)
                in Math_min coinsurancePortion capPortion)
             else Fin 0);
          postDeductibleCost = num_neg postRaw;
          totalSpending =
            num_add (num_add (num_add annualEmployeePremiumCost hsaBenefit) preDeductibleCost)
              postDeductibleCost
      in \<lparr> plan = p,
           annualEmployeePremiumCost = annualEmployeePremiumCost,
           hsaBenefit = hsaBenefit,
           preDeductibleCost = preDeductibleCost,
           postDeductibleCost = postDeductibleCost,
           totalSpending = totalSpending \<rparr>)"

definition calcResults :: "coverage \<Rightarrow> number \<Rightarrow> number \<Rightarrow> result list" where
  "calcResults coverage dEmployeeContribution dExpectedSpend =
     map (calcResult coverage dEmployeeContribution dExpectedSpend) PLAN_ORDER"

text \<open>
  The employee's out-of-pocket total of a result: the magnitudes of the two (negative)
  deductible costs, added.
\<close>

definition outOfPocket :: "result \<Rightarrow> number" where
  "outOfPocket r = num_add (Math_abs (preDeductibleCost r)) (Math_abs (postDeductibleCost r))"

subsection \<open>State and input handlers\<close>

text \<open>
  The four \<^verbatim>\<open>useState\<close> cells of \<^verbatim>\<open>HealthPlanComparison\<close>. The deferred copies
  \<^verbatim>\<open>dExpectedSpend\<close> and \<^verbatim>\<open>dEmployeeContribution\<close> settle on the cells' values, so a
  committed render computes from the cells.
\<close>

record state =
  coverage :: coverage
  displayMode :: displayMode
  expectedSpend :: number
  employeeContribution :: number

definition initial :: state where
  "initial = \<lparr> coverage = Family, displayMode = Pay, expectedSpend = Fin 0,
               employeeContribution = Fin 0 \<rparr>"

definition hsaMaxByCoverage :: "state \<Rightarrow> number" where
  "hsaMaxByCoverage st = coverageMaxHSA (coverage st)"

definition onSetContribution :: "state \<Rightarrow> number \<Rightarrow> state" where
  "onSetContribution st val =
     (let n = (if isFinite val then val else Fin 0)
      in st\<lparr> employeeContribution := Math_max (Fin 0) (Math_min (hsaMaxByCoverage st) n) \<rparr>)"

text \<open>
  The four \<^verbatim>\<open>onChange\<close> handlers. The number of the two numeric inputs is
  \<^verbatim>\<open>Number(e.target.value)\<close>; the expected-spend handler stores it as it is.
\<close>

datatype event =
    CoverageChange coverage
  | DisplayModeChange displayMode
  | ExpectedSpendChange number
  | ContributionChange number

fun onChange :: "state \<Rightarrow> event \<Rightarrow> state" where
  "onChange st (CoverageChange c) = st\<lparr> coverage := c \<rparr>"
| "onChange st (DisplayModeChange m) = st\<lparr> displayMode := m \<rparr>"
| "onChange st (ExpectedSpendChange v) = st\<lparr> expectedSpend := v \<rparr>"
| "onChange st (ContributionChange v) = onSetContribution st v"

definition session :: "event list \<Rightarrow> state" where
  "session evs = foldl onChange initial evs"

definition rendered :: "state \<Rightarrow> result list" where
  "rendered st = calcResults (coverage st) (employeeContribution st) (expectedSpend st)"

text \<open>
  What the cost calculation is documented to receive: a finite expected spend that is not
  negative, and a finite contribution within \<^verbatim>\<open>[0, coverageMaxHSA(coverage)]\<close>.
\<close>

definition spendInDomain :: "state \<Rightarrow> bool" where
  "spendInDomain st = (isFinite (expectedSpend st) \<and> num_le (Fin 0) (expectedSpend st))"

definition contributionInDomain :: "state \<Rightarrow> bool" where
  "contributionInDomain st =
     (isFinite (employeeContribution st) \<and> num_le (Fin 0) (employeeContribution st) \<and>
      num_le (employeeContribution st) (coverageMaxHSA (coverage st)))"

section \<open>Arithmetic on finite numbers\<close>

lemma Math_min_Fin [simp]: "Math_min (Fin x) (Fin y) = Fin (min x y)"
  by (auto simp: Math_min_def)

lemma Math_max_Fin [simp]: "Math_max (Fin x) (Fin y) = Fin (max x y)"
  by (auto simp: Math_max_def)

lemma num_sub_Fin [simp]: "num_sub (Fin x) (Fin y) = Fin (x - y)"
  by (simp add: num_sub_def)

lemma num_gt_Fin [simp]: "num_gt (Fin x) (Fin y) = (y < x)"
  by (simp add: num_gt_def)

lemma num_le_Fin [simp]: "num_le (Fin x) (Fin y) = (x \<le> y)"
  by (auto simp: num_le_def)

lemma num_ge_Fin [simp]: "num_ge (Fin x) (Fin y) = (y \<le> x)"
  by (simp add: num_ge_def)

section \<open>The catalog's thresholds\<close>

lemma catalog_cases: "p \<in> set PLAN_ORDER \<Longrightarrow> p = traditional \<or> p = hdhpA \<or> p = hdhpB"
  by (auto simp: PLAN_ORDER_def)

lemma thresholdsFor_traditional:
  "thresholdsFor traditional c =
     (if c = Employee then (Fin 750, Fin 3500) else (Fin 2250, Fin 7000))"
  by (simp add: thresholdsFor_def traditional_def)

lemma thresholdsFor_hdhpA:
  "thresholdsFor hdhpA c =
     (if c = Employee then (Fin 1700, Fin 3500) else (Fin 3400, Fin 7000))"
  by (simp add: thresholdsFor_def hdhpA_def)

lemma thresholdsFor_hdhpB:
  "thresholdsFor hdhpB c =
     (if c = Employee then (Fin 5000, Fin 6000) else (Fin 10000, Fin 12000))"
  by (simp add: thresholdsFor_def hdhpB_def)

lemma catalog_thresholds:
  assumes "p \<in> set PLAN_ORDER"
  shows "\<exists>d o'. thresholdsFor p c = (Fin d, Fin o') \<and> 0 \<le> d \<and> d \<le> o'"
  using catalog_cases [OF assms]
  by (auto simp: thresholdsFor_traditional thresholdsFor_hdhpA thresholdsFor_hdhpB)

section \<open>The two deductible costs on finite input\<close>

lemma preDeductibleCost_Fin:
  assumes "thresholdsFor p c = (Fin d, Fin o')"
  shows "preDeductibleCost (calcResult c e (Fin s) p) = Fin (- min s d)"
  using assms by (simp add: calcResult_def Let_def)

lemma postDeductibleCost_Fin:
  assumes "thresholdsFor p c = (Fin d, Fin o')"
  shows "postDeductibleCost (calcResult c e (Fin s) p) =
           Fin (- (if d < s then min ((s - d) * (1/5)) (max (o' - d) 0) else 0))"
  using assms by (simp add: calcResult_def Let_def)

lemma outOfPocket_Fin:
  assumes "thresholdsFor p c = (Fin d, Fin o')"
  shows "outOfPocket (calcResult c e (Fin s) p) =
           Fin (\<bar>min s d\<bar> + (if d < s then \<bar>min ((s - d) * (1/5)) (max (o' - d) 0)\<bar> else 0))"
  by (simp add: outOfPocket_def preDeductibleCost_Fin [OF assms] postDeductibleCost_Fin [OF assms])

lemma capped_share_bounds:
  fixes s d o' :: rat
  assumes "d < s"
  shows "0 \<le> min ((s - d) * (1/5)) (max (o' - d) 0)"
    and "min ((s - d) * (1/5)) (max (o' - d) 0) \<le> max (o' - d) 0"
  using assms by simp_all

lemma capped_share_mono:
  fixes s1 s2 d o' :: rat
  assumes "s1 \<le> s2"
  shows "min ((s1 - d) * (1/5)) (max (o' - d) 0) \<le> min ((s2 - d) * (1/5)) (max (o' - d) 0)"
  using assms by (intro min.mono) simp_all

lemma oop_le_cap:
  fixes s d o' :: rat
  assumes "0 \<le> d" "d \<le> o'" "0 \<le> s"
  shows "\<bar>min s d\<bar> + (if d < s then \<bar>min ((s - d) * (1/5)) (max (o' - d) 0)\<bar> else 0) \<le> o'"
proof (cases "d < s")
  case True
  note b = capped_share_bounds [OF True, of o']
  from assms have "max (o' - d) 0 = o' - d" by simp
  with b True assms show ?thesis by (simp add: min_absorb2)
next
  case False
  with assms show ?thesis by (simp add: min_absorb1)
qed

lemma oop_mono:
  fixes s1 s2 d o' :: rat
  assumes "0 \<le> s1" "s1 \<le> s2"
  shows "\<bar>min s1 d\<bar> + (if d < s1 then \<bar>min ((s1 - d) * (1/5)) (max (o' - d) 0)\<bar> else 0)
      \<le> \<bar>min s2 d\<bar> + (if d < s2 then \<bar>min ((s2 - d) * (1/5)) (max (o' - d) 0)\<bar> else 0)"
proof -
  define k1 where "k1 = min ((s1 - d) * (1/5)) (max (o' - d) 0)"
  define k2 where "k2 = min ((s2 - d) * (1/5)) (max (o' - d) 0)"
  have k12: "k1 \<le> k2"
    unfolding k1_def k2_def by (rule capped_share_mono [OF assms(2)])
  have k1: "0 \<le> k1" if "d < s1"
    unfolding k1_def by (rule capped_share_bounds(1) [OF that])
  have k2: "0 \<le> k2" if "d < s2"
    unfolding k2_def by (rule capped_share_bounds(1) [OF that])
  have "\<bar>min s1 d\<bar> + (if d < s1 then \<bar>k1\<bar> else 0)
      \<le> \<bar>min s2 d\<bar> + (if d < s2 then \<bar>k2\<bar> else 0)"
  proof (cases "d < s1")
    case True
    with assms have "d < s2" by simp
    with True k1 k2 k12 show ?thesis by (simp add: min_absorb2)
  next
    case False
    show ?thesis
    proof (cases "d < s2")
      case True
      with False assms k2 show ?thesis by (simp add: min_def)
    next
      case above: False
      with False assms show ?thesis by (simp add: min_def)
    qed
  qed
  then show ?thesis by (simp only: k1_def k2_def)
qed

section \<open>The contribution handler\<close>

lemma coverageMaxHSA_Fin: "\<exists>m. coverageMaxHSA c = Fin m \<and> 0 \<le> m"
  by (simp add: coverageMaxHSA_def)

lemma onSetContribution_in_domain: "contributionInDomain (onSetContribution st v)"
proof -
  obtain m where m: "coverageMaxHSA (coverage st) = Fin m" "0 \<le> m"
    using coverageMaxHSA_Fin by blast
  obtain n where n: "(if isFinite v then v else Fin 0) = Fin n"
    by (cases v) simp_all
  show ?thesis
    using m by (simp add: contributionInDomain_def onSetContribution_def hsaMaxByCoverage_def
        Let_def n)
qed

lemma onSetContribution_not_finite:
  "\<not> isFinite v \<Longrightarrow> employeeContribution (onSetContribution st v) = Fin 0"
  using coverageMaxHSA_Fin [of "coverage st"]
  by (auto simp: onSetContribution_def hsaMaxByCoverage_def Let_def)

lemma num_add_NaN_right [simp]: "num_add a NaN = NaN"
  by (cases a) simp_all

lemma Math_min_NaN_left [simp]: "Math_min NaN b = NaN"
  by (simp add: Math_min_def)

lemma num_gt_NaN_left [simp]: "num_gt NaN b = False"
  by (cases b) (simp_all add: num_gt_def)

section \<open>Claims\<close>

text \<open>
  C1. For every plan of the catalog, every coverage, every finite expected spend that is
  not negative and every contribution (in particular every contribution within
  \<^verbatim>\<open>[0, coverageMaxHSA(coverage)]\<close>), the post-deductible cost is at most 0 and the
  out-of-pocket total \<open>|preDeductibleCost| + |postDeductibleCost|\<close> is at most the
  out-of-pocket maximum that \<^verbatim>\<open>thresholdsFor\<close> gives for the plan and the coverage.
\<close>

theorem oop_cap_invariant:
  assumes "p \<in> set PLAN_ORDER" and "0 \<le> s"
  shows "num_le (postDeductibleCost (calcResult c e (Fin s) p)) (Fin 0) \<and>
         num_le (outOfPocket (calcResult c e (Fin s) p)) (snd (thresholdsFor p c))"
proof -
  from catalog_thresholds [OF assms(1)] obtain d o' where
    t: "thresholdsFor p c = (Fin d, Fin o')" and d: "0 \<le> d" "d \<le> o'"
    by blast
  have post: "num_le (postDeductibleCost (calcResult c e (Fin s) p)) (Fin 0)"
    using d by (simp add: postDeductibleCost_Fin [OF t])
  have "num_le (outOfPocket (calcResult c e (Fin s) p)) (snd (thresholdsFor p c))"
    using oop_le_cap [OF d assms(2)] by (simp add: outOfPocket_Fin [OF t] t)
  with post show ?thesis by simp
qed

theorem oop_cap_invariant_witness:
  "hdhpB \<in> set PLAN_ORDER \<and> (0::rat) \<le> 20000 \<and>
   num_le (postDeductibleCost (calcResult Family (Fin 1200) (Fin 20000) hdhpB)) (Fin 0) \<and>
   num_le (outOfPocket (calcResult Family (Fin 1200) (Fin 20000) hdhpB))
     (snd (thresholdsFor hdhpB Family)) \<and>
   outOfPocket (calcResult Family (Fin 1200) (Fin 20000) hdhpB) = Fin 12000"
proof -
  have m: "hdhpB \<in> set PLAN_ORDER" by (simp add: PLAN_ORDER_def)
  have s: "(0::rat) \<le> 20000" by simp
  have t: "thresholdsFor hdhpB Family = (Fin 10000, Fin 12000)"
    by (simp add: thresholdsFor_hdhpB)
  have "outOfPocket (calcResult Family (Fin 1200) (Fin 20000) hdhpB) = Fin 12000"
    by (simp add: outOfPocket_Fin [OF t])
  with m s oop_cap_invariant [OF m s, of Family "Fin 1200"] show ?thesis by simp
qed

text \<open>
  C4. For every plan whose two thresholds are finite numbers (every plan of the catalog is
  one, by \<open>catalog_thresholds\<close>), every coverage and every fixed contribution, the
  out-of-pocket total does not decrease when the expected spend grows: for finite spends
  \<open>0 \<le> s1 \<le> s2\<close> the total at \<open>s1\<close> is at most the total at \<open>s2\<close>.
\<close>

theorem outOfPocket_monotone:
  assumes "thresholdsFor p c = (Fin d, Fin o')" and "0 \<le> s1" and "s1 \<le> s2"
  shows "num_le (outOfPocket (calcResult c e (Fin s1) p))
                (outOfPocket (calcResult c e (Fin s2) p))"
  using oop_mono [OF assms(2,3), of d o']
  by (simp add: outOfPocket_Fin [OF assms(1)])

theorem outOfPocket_monotone_witness:
  "thresholdsFor hdhpA Employee = (Fin 1700, Fin 3500) \<and> (0::rat) \<le> 1000 \<and>
   (1000::rat) \<le> 5000 \<and>
   outOfPocket (calcResult Employee (Fin 600) (Fin 1000) hdhpA) = Fin 1000 \<and>
   outOfPocket (calcResult Employee (Fin 600) (Fin 5000) hdhpA) = Fin 2360 \<and>
   num_le (outOfPocket (calcResult Employee (Fin 600) (Fin 1000) hdhpA))
          (outOfPocket (calcResult Employee (Fin 600) (Fin 5000) hdhpA))"
proof -
  have t: "thresholdsFor hdhpA Employee = (Fin 1700, Fin 3500)"
    by (simp add: thresholdsFor_hdhpA)
  have a: "(0::rat) \<le> 1000" and b: "(1000::rat) \<le> 5000" by simp_all
  have "outOfPocket (calcResult Employee (Fin 600) (Fin 1000) hdhpA) = Fin 1000"
    and "outOfPocket (calcResult Employee (Fin 600) (Fin 5000) hdhpA) = Fin 2360"
    by (simp_all add: outOfPocket_Fin [OF t])
  with t a b outOfPocket_monotone [OF t a b, of "Fin 600"] show ?thesis by simp
qed

text \<open>
  C2. For every plan and every coverage, \<^verbatim>\<open>thresholdsFor\<close> selects the deductible by the
  plan's shape: from \<open>{employeeOnly, twoPlus}\<close> it takes \<open>employeeOnly\<close> for the employee
  coverage and \<open>twoPlus\<close> for the three others; from \<open>{person, family}\<close> it takes
  \<open>person\<close> for the employee coverage and \<open>family\<close> for the others. The out-of-pocket
  maximum is \<open>person\<close> for the employee coverage and \<open>family\<close> for the others, whatever
  the shape.
\<close>

theorem thresholdsFor_selection:
  "thresholdsFor
     (p\<lparr> details := \<lparr> deductible = EmployeeOnlyTwoPlus \<lparr> employeeOnly = a, twoPlus = b \<rparr>,
                        oopMax = \<lparr> person = x, family = y \<rparr>, pharmacy = t \<rparr> \<rparr>) c
     = (if c = Employee then (a, x) else (b, y)) \<and>
   thresholdsFor
     (p\<lparr> details := \<lparr> deductible = PersonFamily \<lparr> person = a, family = b \<rparr>,
                        oopMax = \<lparr> person = x, family = y \<rparr>, pharmacy = t \<rparr> \<rparr>) c
     = (if c = Employee then (a, x) else (b, y)) \<and>
   fst (thresholdsFor q c) =
     (case deductible (details q) of
        EmployeeOnlyTwoPlus e \<Rightarrow> (if c = Employee then employeeOnly e else twoPlus e)
      | PersonFamily f \<Rightarrow> (if c = Employee then person f else family f)) \<and>
   snd (thresholdsFor q c) =
     (if c = Employee then person (oopMax (details q)) else family (oopMax (details q)))"
  by (simp add: thresholdsFor_def)

text \<open>
  C3. HDHP Plan A, employee coverage, expected spend 5000, contribution 600: the result is
  premium -1056, HSA benefit 600, pre-deductible cost -1700, post-deductible cost -660 and
  total -2816; it is the second element of \<^verbatim>\<open>calcResults\<close>.
\<close>

theorem scenario_hdhpA_employee:
  "calcResult Employee (Fin 600) (Fin 5000) hdhpA =
     \<lparr> plan = hdhpA,
       annualEmployeePremiumCost = Fin (- 1056),
       hsaBenefit = Fin 600,
       preDeductibleCost = Fin (- 1700),
       postDeductibleCost = Fin (- 660),
       totalSpending = Fin (- 2816) \<rparr> \<and>
   calcResults Employee (Fin 600) (Fin 5000) ! 1 = calcResult Employee (Fin 600) (Fin 5000) hdhpA"
proof -
  have t: "thresholdsFor hdhpA Employee = (Fin 1700, Fin 3500)"
    by (simp add: thresholdsFor_hdhpA)
  have m: "monthly (costs hdhpA Employee) = Fin 88"
    by (simp add: hdhpA_def byCoverage_def)
  have e: "employerMatchFor hdhpA Employee = Fin 600"
    by (simp add: employerMatchFor_def hdhpA_def)
  have "calcResults Employee (Fin 600) (Fin 5000) ! 1 =
          calcResult Employee (Fin 600) (Fin 5000) hdhpA"
    by (simp add: calcResults_def PLAN_ORDER_def)
  then show ?thesis
    by (simp add: calcResult_def Let_def t m e)
qed

text \<open>
  C5. \<^verbatim>\<open>totalContributionIncludingMatch(matchCap, employee)\<close>, for all numbers (the
  special values included): the contribution itself when \<^verbatim>\<open>matchCap <= 0\<close>; otherwise
  \<^verbatim>\<open>employee + matchCap\<close> when \<^verbatim>\<open>employee >= matchCap\<close>; otherwise \<^verbatim>\<open>employee * 2\<close>. The
  three examples: (0, 500) gives 500, (600, 600) gives 1200, (600, 300) gives 600.
\<close>

theorem totalContributionIncludingMatch_cases:
  "(num_le m (Fin 0) \<longrightarrow> totalContributionIncludingMatch m e = e) \<and>
   (\<not> num_le m (Fin 0) \<and> num_ge e m \<longrightarrow> totalContributionIncludingMatch m e = num_add e m) \<and>
   (\<not> num_le m (Fin 0) \<and> \<not> num_ge e m \<longrightarrow>
      totalContributionIncludingMatch m e = num_mul e (Fin 2)) \<and>
   totalContributionIncludingMatch (Fin 0) (Fin 500) = Fin 500 \<and>
   totalContributionIncludingMatch (Fin 600) (Fin 600) = Fin 1200 \<and>
   totalContributionIncludingMatch (Fin 600) (Fin 300) = Fin 600"
  by (simp add: totalContributionIncludingMatch_def)

theorem totalContributionIncludingMatch_cases_witness:
  "num_le (Fin 0) (Fin 0) \<and> totalContributionIncludingMatch (Fin 0) (Fin 500) = Fin 500 \<and>
   \<not> num_le (Fin 600) (Fin 0) \<and> num_ge (Fin 600) (Fin 600) \<and>
   totalContributionIncludingMatch (Fin 600) (Fin 600) = num_add (Fin 600) (Fin 600) \<and>
   \<not> num_ge (Fin 300) (Fin 600) \<and>
   totalContributionIncludingMatch (Fin 600) (Fin 300) = num_mul (Fin 300) (Fin 2)"
  using totalContributionIncludingMatch_cases [of "Fin 0" "Fin 500"]
    totalContributionIncludingMatch_cases [of "Fin 600" "Fin 600"]
    totalContributionIncludingMatch_cases [of "Fin 600" "Fin 300"]
  by simp

text \<open>
  C6. The values the handlers hand to the calculation. The contribution handler
  normalises and clamps (\<open>onSetContribution_in_domain\<close>, \<open>onSetContribution_not_finite\<close>),
  the expected-spend handler stores \<^verbatim>\<open>Number(e.target.value)\<close> as it is: after a change to
  \<^verbatim>\<open>NaN\<close> the three totals are \<^verbatim>\<open>NaN\<close>, where the same value in the contribution field gives
  0; after a change to -500 the three pre-deductible costs are +500. A contribution of 8000
  entered under the family coverage is kept when the coverage changes to employee, whose
  maximum is 4400.
\<close>

theorem inputs_reach_calculation_unchecked:
  "expectedSpend (session [ExpectedSpendChange NaN]) = NaN \<and>
   \<not> spendInDomain (session [ExpectedSpendChange NaN]) \<and>
   map totalSpending (rendered (session [ExpectedSpendChange NaN])) = [NaN, NaN, NaN] \<and>
   employeeContribution (session [ContributionChange NaN]) = Fin 0 \<and>
   expectedSpend (session [ExpectedSpendChange (Fin (- 500))]) = Fin (- 500) \<and>
   \<not> spendInDomain (session [ExpectedSpendChange (Fin (- 500))]) \<and>
   map preDeductibleCost (rendered (session [ExpectedSpendChange (Fin (- 500))])) =
     [Fin 500, Fin 500, Fin 500] \<and>
   employeeContribution (session [ContributionChange (Fin 8000), CoverageChange Employee]) =
     Fin 8000 \<and>
   coverageMaxHSA (coverage (session [ContributionChange (Fin 8000), CoverageChange Employee])) =
     Fin 4400 \<and>
   \<not> contributionInDomain (session [ContributionChange (Fin 8000), CoverageChange Employee])"
proof -
  have nan: "session [ExpectedSpendChange NaN] = initial\<lparr> expectedSpend := NaN \<rparr>"
    by (simp add: session_def)
  have neg: "session [ExpectedSpendChange (Fin (- 500))] = initial\<lparr> expectedSpend := Fin (- 500) \<rparr>"
    by (simp add: session_def)
  have stale: "session [ContributionChange (Fin 8000), CoverageChange Employee] =
      initial\<lparr> employeeContribution := Fin 8000, coverage := Employee \<rparr>"
    by (simp add: session_def initial_def onSetContribution_def hsaMaxByCoverage_def
        coverageMaxHSA_def)
  have 1: "map totalSpending (rendered (initial\<lparr> expectedSpend := NaN \<rparr>)) = [NaN, NaN, NaN]"
    by (simp add: rendered_def calcResults_def PLAN_ORDER_def calcResult_def Let_def
        split: prod.splits)
  have 2: "employeeContribution (session [ContributionChange NaN]) = Fin 0"
    by (simp add: session_def initial_def onSetContribution_def hsaMaxByCoverage_def
        coverageMaxHSA_def)
  have 3: "map preDeductibleCost (rendered (initial\<lparr> expectedSpend := Fin (- 500) \<rparr>)) =
      [Fin 500, Fin 500, Fin 500]"
    by (simp add: rendered_def calcResults_def PLAN_ORDER_def initial_def
        preDeductibleCost_Fin [of _ _ _ _ _ "- 500"]
        thresholdsFor_traditional thresholdsFor_hdhpA thresholdsFor_hdhpB)
  show ?thesis
    unfolding nan neg stale
    using 1 2 3
    by (simp add: initial_def spendInDomain_def contributionInDomain_def coverageMaxHSA_def)
qed

text \<open>
  C7. For every plan, coverage, contribution and expected spend, the annual premium cost is
  \<^verbatim>\<open>-(plan.costs[coverage].monthly * 12)\<close>. The results do not change with the display mode,
  and the premium cost does not change with the stored per-pay-period figures.
\<close>

theorem annualPremium_monthly_times_12:
  "annualEmployeePremiumCost (calcResult c e s p) =
     num_neg (num_mul (monthly (costs p c)) (Fin 12)) \<and>
   rendered (st\<lparr> displayMode := m \<rparr>) = rendered st \<and>
   annualEmployeePremiumCost
     (calcResult c e s (p\<lparr> costs := (\<lambda>k. (costs p k)\<lparr> pay := x k \<rparr>) \<rparr>)) =
   annualEmployeePremiumCost (calcResult c e s p)"
  by (simp add: calcResult_def Let_def rendered_def split: prod.splits)

text \<open>
  C8. \<^verbatim>\<open>PLAN_ORDER\<close> has three elements: the traditional plan, HDHP Plan A, HDHP Plan B, in
  this order; \<^verbatim>\<open>calcResults\<close> keeps the order.
\<close>

theorem PLAN_ORDER_fixed:
  "length PLAN_ORDER = 3 \<and>
   PLAN_ORDER ! 0 = traditional \<and> PLAN_ORDER ! 1 = hdhpA \<and> PLAN_ORDER ! 2 = hdhpB \<and>
   map name PLAN_ORDER =
     [''SelectHealth Traditional'', ''SelectHealth HDHP Plan A'', ''SelectHealth HDHP Plan B''] \<and>
   map plan (calcResults c e s) = PLAN_ORDER"
  by (simp add: PLAN_ORDER_def calcResults_def calcResult_def Let_def traditional_def hdhpA_def
      hdhpB_def split: prod.splits)

text \<open>
  C9. For every plan of the catalog and every coverage, the deductible is at most the
  out-of-pocket maximum: \<^verbatim>\<open>oopMax - deductible\<close> is not negative and
  \<^verbatim>\<open>Math.max(oopMax - deductible, 0)\<close> is \<^verbatim>\<open>oopMax - deductible\<close>.
\<close>

theorem catalog_deductible_le_oopMax:
  assumes "p \<in> set PLAN_ORDER"
  shows "num_le (fst (thresholdsFor p c)) (snd (thresholdsFor p c)) \<and>
         num_le (Fin 0) (num_sub (snd (thresholdsFor p c)) (fst (thresholdsFor p c))) \<and>
         Math_max (num_sub (snd (thresholdsFor p c)) (fst (thresholdsFor p c))) (Fin 0) =
           num_sub (snd (thresholdsFor p c)) (fst (thresholdsFor p c))"
proof -
  from catalog_thresholds [OF assms] obtain d o' where
    "thresholdsFor p c = (Fin d, Fin o')" and "d \<le> o'"
    by blast
  then show ?thesis by simp
qed

theorem catalog_deductible_le_oopMax_witness:
  "traditional \<in> set PLAN_ORDER \<and>
   thresholdsFor traditional Spouse = (Fin 2250, Fin 7000) \<and>
   num_le (fst (thresholdsFor traditional Spouse)) (snd (thresholdsFor traditional Spouse)) \<and>
   Math_max (num_sub (snd (thresholdsFor traditional Spouse))
                     (fst (thresholdsFor traditional Spouse))) (Fin 0) = Fin 4750"
proof -
  have m: "traditional \<in> set PLAN_ORDER" by (simp add: PLAN_ORDER_def)
  show ?thesis
    using m catalog_deductible_le_oopMax [OF m, of Spouse]
    by (simp add: thresholdsFor_traditional)
qed

text \<open>
  C10. HDHP Plan A and HDHP Plan B have the same employer match for every coverage: 600
  for the employee coverage and 1200 for the three others; \<^verbatim>\<open>maxMatchForCoverage\<close> is that
  common value.
\<close>

theorem hsaMatch_common:
  "hsaMatch hdhpA c = Some (if c = Employee then Fin 600 else Fin 1200) \<and>
   hsaMatch hdhpB c = hsaMatch hdhpA c \<and>
   employerMatchFor hdhpA c = employerMatchFor hdhpB c \<and>
   maxMatchForCoverage c = (if c = Employee then Fin 600 else Fin 1200)"
  by (cases c) (simp_all add: hdhpA_def hdhpB_def employerMatchFor_def maxMatchForCoverage_def
      orZero_def)

end
